theory Spec2Isabelle
  imports Main "HOL-Library.AList"
begin

section \<open>ToolFabric: the tool registry of \<^verbatim>\<open>src/tool_fabric.py\<close>\<close>

text \<open>
  The development follows the Python classes of \<^verbatim>\<open>src/tool_fabric.py\<close> one by one:
  \<^verbatim>\<open>MCPClient\<close>, \<^verbatim>\<open>BaseTool\<close> with its two subclasses \<^verbatim>\<open>InternalFunctionTool\<close> and
  \<^verbatim>\<open>MCPBasedTool\<close>, the factory \<^verbatim>\<open>create_tool\<close> and the registry \<^verbatim>\<open>ToolFabric\<close>.

  Conventions of the embedding.
  \<^item> A raised exception is a value of type \<open>error\<close>; a method that may raise returns
    \<open>error + 'a\<close> (\<open>Inl\<close> is the exception).
  \<^item> A method that mutates \<^verbatim>\<open>self\<close> returns the updated object.
  \<^item> Everything a method does to the outside (each \<^verbatim>\<open>print\<close>, each call of
    \<^verbatim>\<open>subprocess.Popen\<close>, \<^verbatim>\<open>Popen.terminate\<close>, \<^verbatim>\<open>Thread.start\<close>, \<^verbatim>\<open>Thread.join\<close>) is
    an \<open>event\<close>; a method returns the events it emits, in order.
  \<^item> Tool instances live in a store (\<open>heap\<close>), since the registry's two dictionaries,
    the closures returned by \<^verbatim>\<open>to_tool\<close> and the tables of the consumers all refer to
    the same Python objects.
  \<^item> The embedding follows the thread that calls the registry. The health-check thread
    of a client writes \<^verbatim>\<open>connected\<close> only, and only when it reads it as false; the
    calling thread makes it false in \<^verbatim>\<open>disconnect\<close> only, so that is the one place where
    the other thread can act, and what the scheduler lets it do there is a parameter of
    the model (\<open>health_loop_reconnects\<close>).
\<close>

subsection \<open>Python values, exceptions, the outside world\<close>

datatype pyval =
    PNone
  | PBool bool
  | PInt int
  | PStr string
  | PList "pyval list"
  | PDict "(pyval \<times> pyval) list"

text \<open>Python's truth value of an object, as used by \<^verbatim>\<open>payload or {}\<close>.\<close>

fun truthy :: "pyval \<Rightarrow> bool" where
  "truthy PNone = False"
| "truthy (PBool b) = b"
| "truthy (PInt i) = (i \<noteq> 0)"
| "truthy (PStr s) = (s \<noteq> [])"
| "truthy (PList xs) = (xs \<noteq> [])"
| "truthy (PDict kvs) = (kvs \<noteq> [])"

datatype error =
    KeyError string
  | ValueError string
  | AttributeError string
  | ModuleNotFoundError string
  | OSError string
  | RuntimeError string
  | TypeError string
  | NoSuchObject nat

text \<open>
  A Python callable, called as \<^verbatim>\<open>f(*args, **kwargs)\<close>: it returns a value or raises.
\<close>

type_synonym callable = "pyval list \<Rightarrow> (string \<times> pyval) list \<Rightarrow> error + pyval"

text \<open>A module is its namespace; \<^verbatim>\<open>getattr(module, name)\<close> raises on a missing name.\<close>

type_synonym pymodule = "string \<rightharpoonup> callable"

definition py_getattr :: "pymodule \<Rightarrow> string \<Rightarrow> error + callable" where
  "py_getattr m attr = (case m attr of None \<Rightarrow> Inl (AttributeError attr) | Some f \<Rightarrow> Inr f)"

datatype event =
    Print_Connecting string string string nat
  | Print_NotConnected string
  | Print_Send string string pyval
  | Print_Disconnected string
  | Print_Reconnecting string
  | Thread_Start string nat
  | Thread_Join string
  | Print_InternalReady string
  | Print_InternalStopped string
  | Print_StartingProcess string "string list"
  | Popen "string list"
  | Print_MCPReady string
  | Terminate nat
  | Print_MCPStopped string
  | Print_Added string
  | Print_Removed string

subsection \<open>The configuration of a tool\<close>

text \<open>
  A tool configuration is the dictionary of one entry of the YAML document. The code
  reads it at fixed keys only, so it is a record with one field per key. A key that the
  code tests with \<^verbatim>\<open>in\<close> or reads with \<^verbatim>\<open>.get\<close> is optional (\<open>None\<close>: the key is
  absent); a key that the code reads with \<^verbatim>\<open>cfg["..."]\<close> without a test
  (\<^verbatim>\<open>name\<close> of a tool; \<^verbatim>\<open>name\<close>, \<^verbatim>\<open>host\<close>, \<^verbatim>\<open>port\<close> of a client) is a plain field.
\<close>

record client_cfg =
  cc_name :: string
  cc_host :: string
  cc_port :: nat
  cc_protocol :: "string option"
  cc_enabled :: "bool option"
  cc_auth_token :: "string option"

record health_cfg =
  hc_type :: "string option"
  hc_interval :: "nat option"

record tool_cfg =
  cfg_name :: string
  cfg_command :: "string list option"
  cfg_module :: "string option"
  cfg_function :: "string option"
  cfg_health_check :: "health_cfg option"
  cfg_mcp_clients :: "client_cfg list option"

subsection \<open>MCPClient\<close>

text \<open>
  \<open>health_thread\<close> is \<^verbatim>\<open>self._health_thread\<close>: \<open>None\<close>, or the thread object started
  with the given sleep interval.
\<close>

record client =
  client_name :: string
  host :: string
  port :: nat
  token :: "string option"
  protocol :: string
  connected :: bool
  health_thread :: "nat option"
  stop_health :: bool

definition MCPClient :: "string \<Rightarrow> string \<Rightarrow> nat \<Rightarrow> string \<Rightarrow> string option \<Rightarrow> client" where
  "MCPClient n h p proto tok =
     \<lparr>client_name = n, host = h, port = p, token = tok, protocol = proto,
      connected = False, health_thread = None, stop_health = False\<rparr>"

text \<open>
  \<^verbatim>\<open>connect\<close>: the body of the \<^verbatim>\<open>try\<close> is a \<^verbatim>\<open>print\<close> and an assignment, so the
  \<^verbatim>\<open>except\<close> branch is never taken.
\<close>

definition connect :: "client \<Rightarrow> client \<times> event list" where
  "connect c =
     (c\<lparr>connected := True\<rparr>,
      [Print_Connecting (client_name c) (protocol c) (host c) (port c)])"

definition send :: "pyval \<Rightarrow> client \<Rightarrow> client \<times> event list" where
  "send payload c =
     (if \<not> connected c then (c, [Print_NotConnected (client_name c)])
      else (c, [Print_Send (client_name c) (protocol c) payload]))"

text \<open>
  One pass of the body of \<^verbatim>\<open>health_loop\<close> (the \<^verbatim>\<open>if\<close> and its branch), as the
  health-check thread runs it once it is past the test of \<^verbatim>\<open>self._stop_health\<close>. The
  sleep is not modelled.
\<close>

definition health_loop_body :: "client \<Rightarrow> client \<times> event list" where
  "health_loop_body c =
     (if \<not> connected c then
        let (c', ev) = connect c in (c', Print_Reconnecting (client_name c) # ev)
      else (c, []))"

text \<open>
  \<^verbatim>\<open>disconnect\<close> writes \<^verbatim>\<open>self.connected = False\<close>, then \<^verbatim>\<open>self._stop_health = True\<close>,
  then joins the thread, if there is one. A thread that is still in its loop (the flag
  was not set when \<^verbatim>\<open>disconnect\<close> was called) may have passed the test of the flag
  before the flag is set and read \<^verbatim>\<open>self.connected\<close> after it is cleared; it then runs
  the body of the loop once more and leaves at its next test. \<open>reconnects\<close> says
  whether the scheduler lets that happen in this call. The thread's prints come before
  \<^verbatim>\<open>join\<close> returns.
\<close>

definition disconnect :: "bool \<Rightarrow> client \<Rightarrow> client \<times> event list" where
  "disconnect reconnects c =
     (let c1 = c\<lparr>connected := False\<rparr>;
          (c2, ev) =
            (if reconnects \<and> health_thread c \<noteq> None \<and> \<not> stop_health c
             then health_loop_body c1 else (c1, []));
          c3 = c2\<lparr>stop_health := True\<rparr>
      in (c3,
          ev @ (case health_thread c of None \<Rightarrow> [] | Some _ \<Rightarrow> [Thread_Join (client_name c)])
            @ [Print_Disconnected (client_name c)]))"

definition start_health_check :: "nat \<Rightarrow> client \<Rightarrow> client \<times> event list" where
  "start_health_check interval c =
     (c\<lparr>health_thread := Some interval\<rparr>, [Thread_Start (client_name c) interval])"

text \<open>
  \<^verbatim>\<open>for client in self.mcp_clients: client.m(...)\<close>: the method is applied to each
  client in order; the events are emitted in that order.
\<close>

fun for_each_client ::
  "(client \<Rightarrow> client \<times> event list) \<Rightarrow> client list \<Rightarrow> client list \<times> event list" where
  "for_each_client m [] = ([], [])"
| "for_each_client m (c # cs) =
     (let (c', ev) = m c; (cs', evs) = for_each_client m cs in (c' # cs', ev @ evs))"

text \<open>
  What the operating system, the Python installation and the scheduler answer: whether a
  module can be imported, whether a command can be launched (and the handle of the child
  process), whether terminating a child process raises, and whether the health-check
  thread of a handle gets to reconnect while \<^verbatim>\<open>disconnect\<close> of that handle runs. These
  are parameters of the model.
\<close>

record env =
  import_module :: "string \<Rightarrow> error + pymodule"
  popen :: "string list \<Rightarrow> error + nat"
  terminate :: "nat \<Rightarrow> error option"
  health_loop_reconnects :: "client \<Rightarrow> bool"

subsection \<open>BaseTool and its two subclasses\<close>

datatype tool_class = InternalFunctionTool | MCPBasedTool

text \<open>
  One record for the objects of both subclasses, as Python objects carry their
  attributes dynamically. \<open>tool_function\<close> is \<^verbatim>\<open>self.function\<close> (\<open>None\<close> until
  \<^verbatim>\<open>InternalFunctionTool.start\<close> has set it). \<open>process\<close> is what
  \<^verbatim>\<open>getattr(self, "process", None)\<close> yields: \<open>None\<close> when the attribute is missing or
  \<^verbatim>\<open>None\<close>, the handle of the child process otherwise. \<^verbatim>\<open>self._health_threads\<close> is
  created empty and never appended to, so the second loop of \<^verbatim>\<open>BaseTool.stop\<close> does
  nothing and the attribute is left out.
\<close>

record tool =
  tool_class :: tool_class
  tool_name :: string
  config :: tool_cfg
  mcp_clients :: "client list"
  tool_function :: "callable option"
  process :: "nat option"

definition BaseTool :: "tool_class \<Rightarrow> string \<Rightarrow> tool_cfg \<Rightarrow> tool" where
  "BaseTool cls n cfg =
     \<lparr>tool_class = cls, tool_name = n, config = cfg, mcp_clients = [],
      tool_function = None, process = None\<rparr>"

text \<open>\<^verbatim>\<open>_attach_mcp_clients\<close>: the loop over \<^verbatim>\<open>self.config.get("mcp_clients", [])\<close>.\<close>

fun attach_loop :: "client_cfg list \<Rightarrow> client list \<Rightarrow> client list \<times> event list" where
  "attach_loop [] acc = (acc, [])"
| "attach_loop (cfg # cfgs) acc =
     (if \<not> (case cc_enabled cfg of None \<Rightarrow> True | Some b \<Rightarrow> b) then attach_loop cfgs acc
      else
        let c = MCPClient (cc_name cfg) (cc_host cfg) (cc_port cfg)
                  (case cc_protocol cfg of None \<Rightarrow> ''stdio'' | Some p \<Rightarrow> p)
                  (cc_auth_token cfg);
            (c', ev) = connect c;
            (acc', evs) = attach_loop cfgs (acc @ [c'])
        in (acc', ev @ evs))"

definition attach_mcp_clients :: "tool \<Rightarrow> tool \<times> event list" where
  "attach_mcp_clients t =
     (let (cs, evs) =
            attach_loop (case cfg_mcp_clients (config t) of None \<Rightarrow> [] | Some l \<Rightarrow> l)
              (mcp_clients t)
      in (t\<lparr>mcp_clients := cs\<rparr>, evs))"

definition start_health_checks :: "tool \<Rightarrow> tool \<times> event list" where
  "start_health_checks t =
     (let interval =
            (case cfg_health_check (config t) of
               None \<Rightarrow> 10
             | Some h \<Rightarrow> (case hc_interval h of None \<Rightarrow> 10 | Some i \<Rightarrow> i));
          (cs, evs) = for_each_client (start_health_check interval) (mcp_clients t)
      in (t\<lparr>mcp_clients := cs\<rparr>, evs))"

text \<open>\<^verbatim>\<open>BaseTool.stop\<close>, reached through \<^verbatim>\<open>super().stop()\<close>.\<close>

definition BaseTool_stop :: "env \<Rightarrow> tool \<Rightarrow> tool \<times> event list" where
  "BaseTool_stop e t =
     (let (cs, evs) =
            for_each_client (\<lambda>c. disconnect (health_loop_reconnects e c) c) (mcp_clients t)
      in (t\<lparr>mcp_clients := cs\<rparr>, evs))"

definition InternalFunctionTool_start :: "env \<Rightarrow> tool \<Rightarrow> (error + unit) \<times> tool \<times> event list" where
  "InternalFunctionTool_start e t =
     (case cfg_module (config t) of
        None \<Rightarrow> (Inl (KeyError ''module''), t, [])
      | Some m \<Rightarrow>
          (case import_module e m of
             Inl err \<Rightarrow> (Inl err, t, [])
           | Inr md \<Rightarrow>
               (case cfg_function (config t) of
                  None \<Rightarrow> (Inl (KeyError ''function''), t, [])
                | Some f \<Rightarrow>
                    (case py_getattr md f of
                       Inl err \<Rightarrow> (Inl err, t, [])
                     | Inr fn \<Rightarrow>
                         let t1 = t\<lparr>tool_function := Some fn\<rparr>;
                             (t2, ev2) = attach_mcp_clients t1;
                             (t3, ev3) = start_health_checks t2
                         in (Inr (), t3, ev2 @ ev3 @ [Print_InternalReady (tool_name t)])))))"

definition MCPBasedTool_start :: "env \<Rightarrow> tool \<Rightarrow> (error + unit) \<times> tool \<times> event list" where
  "MCPBasedTool_start e t =
     (let cmd = (case cfg_command (config t) of None \<Rightarrow> [] | Some c \<Rightarrow> c);
          t0 = t\<lparr>process := None\<rparr>
      in if cmd \<noteq> [] then
           (case popen e cmd of
              Inl err \<Rightarrow> (Inl err, t0, [Print_StartingProcess (tool_name t) cmd, Popen cmd])
            | Inr p \<Rightarrow>
                let t1 = t0\<lparr>process := Some p\<rparr>;
                    (t2, ev2) = attach_mcp_clients t1;
                    (t3, ev3) = start_health_checks t2
                in (Inr (), t3,
                    [Print_StartingProcess (tool_name t) cmd, Popen cmd] @ ev2 @ ev3
                      @ [Print_MCPReady (tool_name t)]))
         else
           let (t2, ev2) = attach_mcp_clients t0;
               (t3, ev3) = start_health_checks t2
           in (Inr (), t3, ev2 @ ev3 @ [Print_MCPReady (tool_name t)]))"

definition start :: "env \<Rightarrow> tool \<Rightarrow> (error + unit) \<times> tool \<times> event list" where
  "start e t =
     (case tool_class t of
        InternalFunctionTool \<Rightarrow> InternalFunctionTool_start e t
      | MCPBasedTool \<Rightarrow> MCPBasedTool_start e t)"

definition InternalFunctionTool_stop :: "env \<Rightarrow> tool \<Rightarrow> (error + unit) \<times> tool \<times> event list" where
  "InternalFunctionTool_stop e t =
     (let (t1, ev1) = BaseTool_stop e t
      in (Inr (), t1, ev1 @ [Print_InternalStopped (tool_name t)]))"

definition MCPBasedTool_stop :: "env \<Rightarrow> tool \<Rightarrow> (error + unit) \<times> tool \<times> event list" where
  "MCPBasedTool_stop e t =
     (let (t1, ev1) = BaseTool_stop e t
      in case process t1 of
           None \<Rightarrow> (Inr (), t1, ev1 @ [Print_MCPStopped (tool_name t)])
         | Some p \<Rightarrow>
             (case terminate e p of
                Some err \<Rightarrow> (Inl err, t1, ev1 @ [Terminate p])
              | None \<Rightarrow> (Inr (), t1, ev1 @ [Terminate p, Print_MCPStopped (tool_name t)])))"

definition stop :: "env \<Rightarrow> tool \<Rightarrow> (error + unit) \<times> tool \<times> event list" where
  "stop e t =
     (case tool_class t of
        InternalFunctionTool \<Rightarrow> InternalFunctionTool_stop e t
      | MCPBasedTool \<Rightarrow> MCPBasedTool_stop e t)"

subsection \<open>The factory\<close>

definition create_tool :: "tool_cfg \<Rightarrow> error + tool" where
  "create_tool tool_cfg =
     (if cfg_command tool_cfg \<noteq> None then
        Inr (BaseTool MCPBasedTool (cfg_name tool_cfg) tool_cfg)
      else if cfg_module tool_cfg \<noteq> None \<and> cfg_function tool_cfg \<noteq> None then
        Inr (BaseTool InternalFunctionTool (cfg_name tool_cfg) tool_cfg)
      else Inl (ValueError (''Unknown tool type for '' @ cfg_name tool_cfg)))"

subsection \<open>Closures, the store, the registry\<close>

text \<open>
  \<^verbatim>\<open>to_tool\<close> returns the inner function \<^verbatim>\<open>tool\<close>, a closure over \<^verbatim>\<open>self\<close>: the
  closure is the subclass whose \<^verbatim>\<open>to_tool\<close> built it and the address of \<^verbatim>\<open>self\<close>.
\<close>

datatype closure = InternalFunctionTool_tool nat | MCPBasedTool_tool nat

definition to_tool :: "nat \<Rightarrow> tool \<Rightarrow> closure" where
  "to_tool self t =
     (case tool_class t of
        InternalFunctionTool \<Rightarrow> InternalFunctionTool_tool self
      | MCPBasedTool \<Rightarrow> MCPBasedTool_tool self)"

text \<open>
  A Python \<^verbatim>\<open>dict\<close> with string keys is an association list in insertion order:
  \<^verbatim>\<open>d[k] = v\<close> is \<open>AList.update\<close> (in place when the key is there, at the end
  otherwise), \<^verbatim>\<open>del d[k]\<close> is \<open>AList.delete\<close> after a test that the key is there,
  \<^verbatim>\<open>k in d\<close> and \<^verbatim>\<open>d[k]\<close> are \<open>map_of\<close>.

  \<^verbatim>\<open>ToolFabric.config_path\<close> and \<^verbatim>\<open>ToolFabric.config\<close> hold the YAML document; they
  are read by \<^verbatim>\<open>setup\<close> only and are left out.
\<close>

record tool_fabric =
  tool_instances :: "(string \<times> nat) list"
  tools :: "(string \<times> closure) list"

definition ToolFabric :: tool_fabric where
  "ToolFabric = \<lparr>tool_instances = [], tools = []\<rparr>"

text \<open>
  Modelled from the spec: the consumer (the ADK agent, a class of an external library
  that is not in this repository). The spec gives it "its own tool table", and
  \<^verbatim>\<open>attach_tool(name, func)\<close> stores one entry in that table.
\<close>

record agent =
  agent_tools :: "(string \<times> closure) list"

definition attach_tool :: "string \<Rightarrow> closure \<Rightarrow> agent \<Rightarrow> agent" where
  "attach_tool n func ag = ag\<lparr>agent_tools := AList.update n func (agent_tools ag)\<rparr>"

text \<open>
  The state of the process: the store of tool instances (\<open>next_addr\<close> is the next free
  address), the events emitted so far, the registry, and the store of the consumers.
\<close>

record world =
  heap :: "nat \<rightharpoonup> tool"
  next_addr :: nat
  trace :: "event list"
  fabric :: tool_fabric
  agents :: "nat \<rightharpoonup> agent"

text \<open>
  The closure of \<^verbatim>\<open>InternalFunctionTool.to_tool\<close>, called as \<^verbatim>\<open>tool(*args, **kwargs)\<close>.
  \<open>NoSuchObject\<close> stands for a reference without an object, which Python excludes; it
  keeps the model total.
\<close>

definition call_InternalFunctionTool_tool ::
  "nat \<Rightarrow> pyval list \<Rightarrow> (string \<times> pyval) list \<Rightarrow> world \<Rightarrow> (error + pyval) \<times> world" where
  "call_InternalFunctionTool_tool self args kwargs w =
     (case heap w self of
        None \<Rightarrow> (Inl (NoSuchObject self), w)
      | Some t \<Rightarrow>
          (case tool_function t of
             None \<Rightarrow> (Inl (AttributeError ''function''), w)
           | Some f \<Rightarrow>
               (case f args kwargs of
                  Inl err \<Rightarrow> (Inl err, w)
                | Inr result \<Rightarrow>
                    let (cs, evs) =
                          for_each_client (send (PDict [(PStr ''result'', result)]))
                            (mcp_clients t)
                    in (Inr result,
                        w\<lparr>heap := (heap w)(self \<mapsto> t\<lparr>mcp_clients := cs\<rparr>),
                          trace := trace w @ evs\<rparr>))))"

text \<open>
  The closure of \<^verbatim>\<open>MCPBasedTool.to_tool\<close>, called as \<^verbatim>\<open>tool(action, payload)\<close> with a
  string \<^verbatim>\<open>action\<close>; the default \<^verbatim>\<open>payload=None\<close> is \<open>PNone\<close>.
\<close>

definition call_MCPBasedTool_tool ::
  "nat \<Rightarrow> string \<Rightarrow> pyval \<Rightarrow> world \<Rightarrow> (error + pyval) \<times> world" where
  "call_MCPBasedTool_tool self action payload w =
     (case heap w self of
        None \<Rightarrow> (Inl (NoSuchObject self), w)
      | Some t \<Rightarrow>
          let payload' = (if truthy payload then payload else PDict []);
              (cs, evs) =
                for_each_client
                  (send (PDict [(PStr ''action'', PStr action), (PStr ''payload'', payload')]))
                  (mcp_clients t)
          in (Inr (PStr (''['' @ tool_name t @ ''] '' @ action @ '' executed'')),
              w\<lparr>heap := (heap w)(self \<mapsto> t\<lparr>mcp_clients := cs\<rparr>),
                trace := trace w @ evs\<rparr>))"

text \<open>
  \<^verbatim>\<open>ToolFabric.add_tool\<close>. The instance is entered in the store when \<^verbatim>\<open>start\<close> has
  returned; an instance whose \<^verbatim>\<open>start\<close> raised is referenced by nothing and is dropped,
  while the events it emitted stay.
\<close>

definition add_tool :: "env \<Rightarrow> tool_cfg \<Rightarrow> world \<Rightarrow> (error + unit) \<times> world" where
  "add_tool e cfg w =
     (case create_tool cfg of
        Inl err \<Rightarrow> (Inl err, w)
      | Inr instance \<Rightarrow>
          (case start e instance of
             (Inl err, _, evs) \<Rightarrow> (Inl err, w\<lparr>trace := trace w @ evs\<rparr>)
           | (Inr _, instance', evs) \<Rightarrow>
               let self = next_addr w
               in (Inr (),
                   w\<lparr>heap := (heap w)(self \<mapsto> instance'),
                     next_addr := Suc self,
                     trace := trace w @ evs @ [Print_Added (cfg_name cfg)],
                     fabric :=
                       \<lparr>tool_instances =
                          AList.update (cfg_name cfg) self (tool_instances (fabric w)),
                        tools =
                          AList.update (cfg_name cfg) (to_tool self instance')
                            (tools (fabric w))\<rparr>\<rparr>)))"

text \<open>
  \<^verbatim>\<open>ToolFabric.remove_tool\<close>. \<^verbatim>\<open>stop\<close> mutates the instance before it may raise, so the
  store is updated on both branches. \<^verbatim>\<open>del self.tools[name]\<close> raises on a missing key.
\<close>

definition remove_tool :: "env \<Rightarrow> string \<Rightarrow> world \<Rightarrow> (error + unit) \<times> world" where
  "remove_tool e n w =
     (case map_of (tool_instances (fabric w)) n of
        None \<Rightarrow> (Inr (), w)
      | Some self \<Rightarrow>
          (case heap w self of
             None \<Rightarrow> (Inl (NoSuchObject self), w)
           | Some t \<Rightarrow>
               (case stop e t of
                  (Inl err, t', evs) \<Rightarrow>
                    (Inl err, w\<lparr>heap := (heap w)(self \<mapsto> t'), trace := trace w @ evs\<rparr>)
                | (Inr _, t', evs) \<Rightarrow>
                    let w1 = w\<lparr>heap := (heap w)(self \<mapsto> t'), trace := trace w @ evs\<rparr>;
                        w2 = w1\<lparr>fabric :=
                                 (fabric w1)\<lparr>tool_instances :=
                                   AList.delete n (tool_instances (fabric w1))\<rparr>\<rparr>
                    in (case map_of (tools (fabric w2)) n of
                          None \<Rightarrow> (Inl (KeyError n), w2)
                        | Some _ \<Rightarrow>
                            (Inr (),
                             w2\<lparr>fabric :=
                                  (fabric w2)\<lparr>tools := AList.delete n (tools (fabric w2))\<rparr>,
                                trace := trace w2 @ [Print_Removed n]\<rparr>)))))"

text \<open>
  \<^verbatim>\<open>ToolFabric.attach_all_to_agent\<close>: the loop over \<^verbatim>\<open>self.tools.items()\<close>; the agent
  is the consumer at address \<open>a\<close>.
\<close>

fun attach_all_loop :: "(string \<times> closure) list \<Rightarrow> agent \<Rightarrow> agent" where
  "attach_all_loop [] ag = ag"
| "attach_all_loop ((n, func) # items) ag = attach_all_loop items (attach_tool n func ag)"

definition attach_all_to_agent :: "nat \<Rightarrow> world \<Rightarrow> (error + unit) \<times> world" where
  "attach_all_to_agent a w =
     (case agents w a of
        None \<Rightarrow> (Inl (NoSuchObject a), w)
      | Some ag \<Rightarrow>
          (Inr (), w\<lparr>agents := (agents w)(a \<mapsto> attach_all_loop (tools (fabric w)) ag)\<rparr>))"

text \<open>
  A sequence of registry calls. Each call is made by a caller that catches what the call
  raises and goes on with the state as the call left it.
\<close>

datatype op = Add_tool tool_cfg | Remove_tool string

fun apply_op :: "env \<Rightarrow> op \<Rightarrow> world \<Rightarrow> (error + unit) \<times> world" where
  "apply_op e (Add_tool cfg) w = add_tool e cfg w"
| "apply_op e (Remove_tool n) w = remove_tool e n w"

fun run :: "env \<Rightarrow> op list \<Rightarrow> world \<Rightarrow> world" where
  "run e [] w = w"
| "run e (x # xs) w = run e xs (snd (apply_op e x w))"

text \<open>The state right after \<^verbatim>\<open>ToolFabric()\<close>, with the consumers \<open>ags\<close> alive.\<close>

definition new_world :: "(nat \<rightharpoonup> agent) \<Rightarrow> world" where
  "new_world ags =
     \<lparr>heap = Map.empty, next_addr = 0, trace = [], fabric = ToolFabric, agents = ags\<rparr>"

subsection \<open>Example installations and configurations\<close>

text \<open>
  The callable \<^verbatim>\<open>def echo(x): return x\<close>; called with another shape of arguments it
  raises \<^verbatim>\<open>TypeError\<close>.
\<close>

definition echo :: callable where
  "echo args kwargs =
     (case (args, kwargs) of
        ([x], []) \<Rightarrow> Inr x
      | _ \<Rightarrow> Inl (TypeError ''echo() takes 1 positional argument''))"

definition failing :: callable where
  "failing args kwargs = Inl (RuntimeError ''boom'')"

definition enterprise_tools_user :: pymodule where
  "enterprise_tools_user = [''echo'' \<mapsto> echo, ''failing'' \<mapsto> failing]"

text \<open>
  An installation where the module \<^verbatim>\<open>enterprise_tools.user\<close> exists, where \<^verbatim>\<open>npx\<close>
  launches (as process 4242) and no other command does, where terminating a process
  never raises and where no health-check thread gets to reconnect during a
  \<^verbatim>\<open>disconnect\<close>; the same installation where terminating raises; and the same
  installation where every health-check thread that is still in its loop reconnects
  during the \<^verbatim>\<open>disconnect\<close> of its handle.
\<close>

definition example_env :: env where
  "example_env =
     \<lparr>import_module =
        (\<lambda>m. if m = ''enterprise_tools.user'' then Inr enterprise_tools_user
             else Inl (ModuleNotFoundError m)),
      popen =
        (\<lambda>cmd. if cmd = [''npx'', ''@playwright/mcp@latest'', ''--headless''] then Inr 4242
               else Inl (OSError ''No such file or directory'')),
      terminate = (\<lambda>p. None),
      health_loop_reconnects = (\<lambda>c. False)\<rparr>"

definition denying_env :: env where
  "denying_env = example_env\<lparr>terminate := (\<lambda>p. Some (OSError ''Permission denied''))\<rparr>"

definition racing_env :: env where
  "racing_env = example_env\<lparr>health_loop_reconnects := (\<lambda>c. True)\<rparr>"

text \<open>
  The handle of the \<^verbatim>\<open>playwright\<close> entry as \<^verbatim>\<open>start()\<close> leaves it: connected, with
  its health-check thread running.
\<close>

definition monitored_handle :: client where
  "monitored_handle =
     fst (start_health_check 5
            (fst (connect (MCPClient ''playwright-client-1'' ''localhost'' 8081 ''stdio'' None))))"

text \<open>
  The descriptors used below: two client entries of the YAML example; a function-backed
  tool \<^verbatim>\<open>"echo"\<close>; the \<^verbatim>\<open>playwright\<close> entry of the YAML example; a command that
  cannot be launched; a function that its module does not define; a descriptor with all
  three of \<^verbatim>\<open>command\<close>, \<^verbatim>\<open>module\<close>, \<^verbatim>\<open>function\<close>; a descriptor with \<^verbatim>\<open>module\<close>
  alone; a second descriptor named \<^verbatim>\<open>"echo"\<close>.
\<close>

definition user_logger :: client_cfg where
  "user_logger =
     \<lparr>cc_name = ''user-logger'', cc_host = ''logs.local'', cc_port = 8000,
      cc_protocol = Some ''sse'', cc_enabled = Some True, cc_auth_token = None\<rparr>"

definition playwright_client :: client_cfg where
  "playwright_client =
     \<lparr>cc_name = ''playwright-client-1'', cc_host = ''localhost'', cc_port = 8081,
      cc_protocol = Some ''stdio'', cc_enabled = Some True, cc_auth_token = None\<rparr>"

definition echo_cfg :: tool_cfg where
  "echo_cfg =
     \<lparr>cfg_name = ''echo'', cfg_command = None, cfg_module = Some ''enterprise_tools.user'',
      cfg_function = Some ''echo'',
      cfg_health_check = Some \<lparr>hc_type = Some ''internal'', hc_interval = Some 30\<rparr>,
      cfg_mcp_clients = Some [user_logger]\<rparr>"

definition playwright_cfg :: tool_cfg where
  "playwright_cfg =
     \<lparr>cfg_name = ''playwright'',
      cfg_command = Some [''npx'', ''@playwright/mcp@latest'', ''--headless''],
      cfg_module = None, cfg_function = None,
      cfg_health_check = Some \<lparr>hc_type = Some ''ping'', hc_interval = Some 5\<rparr>,
      cfg_mcp_clients = Some [playwright_client]\<rparr>"

definition broken_cfg :: tool_cfg where
  "broken_cfg =
     \<lparr>cfg_name = ''broken'', cfg_command = Some [''no-such-binary''],
      cfg_module = None, cfg_function = None, cfg_health_check = None,
      cfg_mcp_clients = None\<rparr>"

definition unresolved_cfg :: tool_cfg where
  "unresolved_cfg =
     \<lparr>cfg_name = ''user_info'', cfg_command = None, cfg_module = Some ''enterprise_tools.user'',
      cfg_function = Some ''get_userInfo'', cfg_health_check = None, cfg_mcp_clients = None\<rparr>"

definition both_cfg :: tool_cfg where
  "both_cfg = echo_cfg\<lparr>cfg_command := Some [''npx'', ''@playwright/mcp@latest'', ''--headless'']\<rparr>"

definition untyped_cfg :: tool_cfg where
  "untyped_cfg = echo_cfg\<lparr>cfg_name := ''nothing'', cfg_function := None\<rparr>"

definition echo2_cfg :: tool_cfg where
  "echo2_cfg = echo_cfg\<lparr>cfg_function := Some ''failing'', cfg_mcp_clients := None\<rparr>"

text \<open>A process with one consumer, at address 0, whose tool table is empty.\<close>

definition session_agents :: "nat \<rightharpoonup> agent" where
  "session_agents = [0 \<mapsto> \<lparr>agent_tools = []\<rparr>]"

section \<open>Properties\<close>

lemmas client_defs = MCPClient_def connect_def send_def health_loop_body_def disconnect_def
  start_health_check_def

lemmas tool_defs = BaseTool_def attach_mcp_clients_def start_health_checks_def BaseTool_stop_def
  InternalFunctionTool_start_def MCPBasedTool_start_def start_def InternalFunctionTool_stop_def
  MCPBasedTool_stop_def stop_def create_tool_def to_tool_def py_getattr_def

lemmas example_defs = echo_def failing_def enterprise_tools_user_def example_env_def
  denying_env_def racing_env_def monitored_handle_def user_logger_def playwright_client_def echo_cfg_def playwright_cfg_def
  new_world_def ToolFabric_def broken_cfg_def unresolved_cfg_def both_cfg_def untyped_cfg_def
  echo2_cfg_def session_agents_def

subsection \<open>Auxiliary facts\<close>

text \<open>A loop over the clients is a \<open>map\<close> on the clients and a \<open>concat\<close> of the events.\<close>

lemma for_each_client_eq:
  "for_each_client m cs = (map (\<lambda>c. fst (m c)) cs, concat (map (\<lambda>c. snd (m c)) cs))"
  by (induction cs) (simp_all add: split_beta)

lemma send_keeps_client: "fst (send payload c) = c"
  by (simp add: send_def)

lemma send_events:
  "snd (send payload c) =
     (if connected c then [Print_Send (client_name c) (protocol c) payload]
      else [Print_NotConnected (client_name c)])"
  by (simp add: send_def)

lemma send_all_keeps_clients: "fst (for_each_client (send payload) cs) = cs"
  by (simp add: for_each_client_eq send_keeps_client)

lemma store_same_object:
  "heap w self = Some t \<Longrightarrow> w\<lparr>heap := (heap w)(self \<mapsto> t), trace := tr\<rparr> = w\<lparr>trace := tr\<rparr>"
  by (simp add: map_upd_triv)

text \<open>
  What \<^verbatim>\<open>disconnect\<close> leaves: the cancellation flag is set on every schedule; the
  handle is connected exactly when its thread was still in its loop and got to reconnect;
  with a thread, the join is the last thing before the final print; a second call finds
  the flag set, so no thread acts in it.
\<close>

lemma disconnect_stop_health: "stop_health (fst (disconnect r c))"
  by (simp add: disconnect_def health_loop_body_def connect_def Let_def split_beta)

lemma disconnect_connected:
  "connected (fst (disconnect r c)) \<longleftrightarrow> r \<and> health_thread c \<noteq> None \<and> \<not> stop_health c"
  by (simp add: disconnect_def health_loop_body_def connect_def Let_def split_beta)

lemma disconnect_join_last:
  "health_thread c = Some i \<Longrightarrow>
   \<exists>evs. snd (disconnect r c) = evs @ [Thread_Join (client_name c), Print_Disconnected (client_name c)]"
  by (simp add: disconnect_def Let_def split_beta)

lemma disconnect_again:
  "fst (disconnect r' (fst (disconnect r c))) = (fst (disconnect r c))\<lparr>connected := False\<rparr>"
  by (simp add: disconnect_def health_loop_body_def connect_def Let_def split_beta)

text \<open>
  The consumer's table after the loop of \<^verbatim>\<open>attach_all_to_agent\<close>, and the frame of
  the registry calls on the consumers.
\<close>

lemma attach_all_loop_table:
  "distinct (map fst items) \<Longrightarrow>
   map_of (agent_tools (attach_all_loop items ag)) = map_of (agent_tools ag) ++ map_of items"
proof (induction items arbitrary: ag)
  case Nil
  then show ?case by simp
next
  case (Cons item items)
  obtain n func where item: "item = (n, func)" by (cases item)
  from Cons.prems item have fresh: "n \<notin> dom (map_of items)"
    by (simp add: dom_map_of_conv_image_fst)
  from Cons.prems have "distinct (map fst items)" by simp
  then have "map_of (agent_tools (attach_all_loop items (attach_tool n func ag)))
      = map_of (agent_tools (attach_tool n func ag)) ++ map_of items"
    by (rule Cons.IH)
  also have "\<dots> = (map_of (agent_tools ag))(n \<mapsto> func) ++ map_of items"
    by (simp add: attach_tool_def update_conv')
  also have "\<dots> = (map_of (agent_tools ag) ++ map_of items)(n \<mapsto> func)"
    using fresh by (rule map_add_upd_left)
  finally show ?case
    unfolding item by (simp only: attach_all_loop.simps map_of.simps fst_conv snd_conv map_add_upd)
qed

lemma add_tool_agents: "agents (snd (add_tool e cfg w)) = agents w"
  by (simp add: add_tool_def Let_def split: sum.splits prod.splits)

lemma remove_tool_agents: "agents (snd (remove_tool e n w)) = agents w"
  by (simp add: remove_tool_def Let_def split: option.splits sum.splits prod.splits)

lemma run_agents: "agents (run e ops w) = agents w"
proof (induction ops arbitrary: w)
  case Nil
  then show ?case by simp
next
  case (Cons x ops)
  then show ?case
    by (cases x) (simp_all add: add_tool_agents remove_tool_agents)
qed

text \<open>
  The two dictionaries of the registry have the same keys, in the same order; the keys of
  a dictionary are distinct.
\<close>

lemma keys_update: "map fst xs = map fst ys \<Longrightarrow>
   map fst (AList.update k v xs) = map fst (AList.update k v' ys)"
  by (simp add: update_keys)

lemma keys_delete: "map fst xs = map fst ys \<Longrightarrow>
   map fst (AList.delete k xs) = map fst (AList.delete k ys)"
  by (simp add: delete_keys)

lemma add_tool_keys:
  assumes "map fst (tool_instances (fabric w)) = map fst (tools (fabric w))"
  shows "map fst (tool_instances (fabric (snd (add_tool e cfg w))))
       = map fst (tools (fabric (snd (add_tool e cfg w))))"
  using assms
  by (auto simp: add_tool_def Let_def intro: keys_update split: sum.splits prod.splits)

lemma remove_tool_keys:
  assumes "map fst (tool_instances (fabric w)) = map fst (tools (fabric w))"
  shows "map fst (tool_instances (fabric (snd (remove_tool e n w))))
       = map fst (tools (fabric (snd (remove_tool e n w))))"
proof (cases "map_of (tool_instances (fabric w)) n")
  case None
  with assms show ?thesis by (simp add: remove_tool_def)
next
  case (Some self)
  then have "n \<in> set (map fst (tool_instances (fabric w)))"
    by (metis map_of_eq_None_iff option.distinct(1) set_map)
  with assms have "n \<in> fst ` set (tools (fabric w))" by simp
  then obtain func where func: "map_of (tools (fabric w)) n = Some func"
    by (metis map_of_eq_None_iff not_Some_eq)
  from assms Some func show ?thesis
    by (auto simp: remove_tool_def Let_def intro: keys_delete
        split: option.splits sum.splits prod.splits)
qed

lemma run_keys:
  "map fst (tool_instances (fabric w)) = map fst (tools (fabric w)) \<Longrightarrow>
   map fst (tool_instances (fabric (run e ops w))) = map fst (tools (fabric (run e ops w)))"
proof (induction ops arbitrary: w)
  case Nil
  then show ?case by simp
next
  case (Cons x ops)
  then show ?case
    by (cases x) (simp_all add: add_tool_keys remove_tool_keys)
qed

lemma add_tool_distinct:
  "distinct (map fst (tools (fabric w))) \<Longrightarrow>
   distinct (map fst (tools (fabric (snd (add_tool e cfg w)))))"
  by (auto simp: add_tool_def Let_def distinct_update split: sum.splits prod.splits)

lemma remove_tool_distinct:
  "distinct (map fst (tools (fabric w))) \<Longrightarrow>
   distinct (map fst (tools (fabric (snd (remove_tool e n w)))))"
  by (auto simp: remove_tool_def Let_def distinct_delete split: option.splits sum.splits prod.splits)

lemma run_distinct:
  "distinct (map fst (tools (fabric (run e ops (new_world ags)))))"
proof -
  have "distinct (map fst (tools (fabric w))) \<Longrightarrow>
        distinct (map fst (tools (fabric (run e ops w))))" for w
  proof (induction ops arbitrary: w)
    case Nil
    then show ?case by simp
  next
    case (Cons x ops)
    then show ?case
      by (cases x) (simp_all add: add_tool_distinct remove_tool_distinct)
  qed
  then show ?thesis
    by (simp add: new_world_def ToolFabric_def)
qed

subsection \<open>Registering a name twice\<close>

text \<open>
  C1 as stated does not hold: \<^verbatim>\<open>add_tool\<close> has no test for a name that is already
  registered. With \<^verbatim>\<open>"echo"\<close> registered (instance 0), registering a second descriptor
  named \<^verbatim>\<open>"echo"\<close> returns normally, and both dictionaries then hold the second
  instance (1) under that name.
\<close>

theorem add_tool_duplicate_counterexample:
  "map_of (tools (fabric (snd (add_tool example_env echo_cfg (new_world Map.empty))))) ''echo''
     = Some (InternalFunctionTool_tool 0) \<and>
   cfg_name echo2_cfg = ''echo'' \<and>
   fst (add_tool example_env echo2_cfg (snd (add_tool example_env echo_cfg (new_world Map.empty))))
     = Inr () \<and>
   fabric (snd (add_tool example_env echo2_cfg
                  (snd (add_tool example_env echo_cfg (new_world Map.empty)))))
     = \<lparr>tool_instances = [(''echo'', 1)], tools = [(''echo'', InternalFunctionTool_tool 1)]\<rparr>"
  by (simp add: add_tool_def client_defs tool_defs example_defs Let_def)

text \<open>
  C1, amended: for every state and every descriptor whose name is already in the visible
  mapping, \<^verbatim>\<open>add_tool\<close> raises no duplicate-name error. When the new instance starts,
  the call returns normally and the entry under that name is replaced: both dictionaries
  map the name to the new instance (stored at the next free address) and to its
  invocable, and the visible mapping keeps the same keys, one entry for the name.
\<close>

theorem add_tool_existing_name_replaces:
  assumes "map_of (tools (fabric w)) (cfg_name cfg) = Some old"
    and "create_tool cfg = Inr t"
    and "start e t = (Inr (), t', evs)"
  shows "fst (add_tool e cfg w) = Inr () \<and>
         map_of (tool_instances (fabric (snd (add_tool e cfg w)))) (cfg_name cfg)
           = Some (next_addr w) \<and>
         map_of (tools (fabric (snd (add_tool e cfg w)))) (cfg_name cfg)
           = Some (to_tool (next_addr w) t') \<and>
         heap (snd (add_tool e cfg w)) (next_addr w) = Some t' \<and>
         map fst (tools (fabric (snd (add_tool e cfg w)))) = map fst (tools (fabric w))"
proof -
  from assms(1) have "cfg_name cfg \<in> set (map fst (tools (fabric w)))"
    by (metis map_of_eq_None_iff option.distinct(1) set_map)
  then have "map fst (AList.update (cfg_name cfg) (to_tool (next_addr w) t') (tools (fabric w)))
               = map fst (tools (fabric w))"
    by (simp add: update_keys)
  then show ?thesis
    using assms(2,3) by (simp add: add_tool_def Let_def update_conv')
qed

theorem add_tool_existing_name_replaces_witness:
  "map_of (tools (fabric (snd (add_tool example_env echo_cfg (new_world Map.empty)))))
     (cfg_name echo2_cfg) = Some (InternalFunctionTool_tool 0) \<and>
   fst (add_tool example_env echo2_cfg (snd (add_tool example_env echo_cfg (new_world Map.empty))))
     = Inr () \<and>
   map_of (tools (fabric (snd (add_tool example_env echo2_cfg
       (snd (add_tool example_env echo_cfg (new_world Map.empty))))))) (cfg_name echo2_cfg)
     = Some (InternalFunctionTool_tool 1) \<and>
   map fst (tools (fabric (snd (add_tool example_env echo2_cfg
       (snd (add_tool example_env echo_cfg (new_world Map.empty)))))))
     = [''echo'']"
proof -
  let ?w = "snd (add_tool example_env echo_cfg (new_world Map.empty))"
  let ?t = "BaseTool InternalFunctionTool ''echo'' echo2_cfg"
  have present: "map_of (tools (fabric ?w)) (cfg_name echo2_cfg) = Some (InternalFunctionTool_tool 0)"
    by (simp add: add_tool_def client_defs tool_defs example_defs Let_def)
  have created: "create_tool echo2_cfg = Inr ?t"
    by (simp add: tool_defs example_defs)
  have started: "start example_env ?t
      = (Inr (), fst (snd (start example_env ?t)), snd (snd (start example_env ?t)))"
    by (simp add: client_defs tool_defs example_defs Let_def)
  have cls: "to_tool (next_addr ?w) (fst (snd (start example_env ?t))) = InternalFunctionTool_tool 1"
    by (simp add: add_tool_def client_defs tool_defs example_defs Let_def)
  have keys: "map fst (tools (fabric ?w)) = [''echo'']"
    by (simp add: add_tool_def client_defs tool_defs example_defs Let_def)
  show ?thesis
    using add_tool_existing_name_replaces [OF present created started] present cls keys
    by simp
qed

subsection \<open>A tool that does not start\<close>

text \<open>
  C2: when \<^verbatim>\<open>start()\<close> of the instance built for a descriptor raises, \<^verbatim>\<open>add_tool\<close>
  raises the same error and the registry is as before: both dictionaries and the store
  of instances are unchanged, so a name that was in neither dictionary is in neither
  afterwards.
\<close>

theorem add_tool_start_failure:
  assumes "create_tool cfg = Inr t"
    and "fst (start e t) = Inl err"
  shows "fst (add_tool e cfg w) = Inl err \<and>
         fabric (snd (add_tool e cfg w)) = fabric w \<and>
         heap (snd (add_tool e cfg w)) = heap w \<and>
         (map_of (tool_instances (fabric w)) (cfg_name cfg) = None \<longrightarrow>
            map_of (tool_instances (fabric (snd (add_tool e cfg w)))) (cfg_name cfg) = None) \<and>
         (map_of (tools (fabric w)) (cfg_name cfg) = None \<longrightarrow>
            map_of (tools (fabric (snd (add_tool e cfg w)))) (cfg_name cfg) = None)"
proof -
  obtain t' evs where "start e t = (Inl err, t', evs)"
    using assms(2) by (cases "start e t") auto
  with assms(1) show ?thesis
    by (simp add: add_tool_def)
qed

theorem add_tool_start_failure_witness:
  "create_tool broken_cfg = Inr (BaseTool MCPBasedTool ''broken'' broken_cfg) \<and>
   fst (start example_env (BaseTool MCPBasedTool ''broken'' broken_cfg))
     = Inl (OSError ''No such file or directory'') \<and>
   fst (add_tool example_env broken_cfg (new_world Map.empty))
     = Inl (OSError ''No such file or directory'') \<and>
   fabric (snd (add_tool example_env broken_cfg (new_world Map.empty))) = ToolFabric \<and>
   map_of (tools (fabric (snd (add_tool example_env broken_cfg (new_world Map.empty)))))
     (cfg_name broken_cfg) = None \<and>
   create_tool unresolved_cfg = Inr (BaseTool InternalFunctionTool ''user_info'' unresolved_cfg) \<and>
   fst (start example_env (BaseTool InternalFunctionTool ''user_info'' unresolved_cfg))
     = Inl (AttributeError ''get_userInfo'') \<and>
   fst (add_tool example_env unresolved_cfg (new_world Map.empty))
     = Inl (AttributeError ''get_userInfo'') \<and>
   map_of (tools (fabric (snd (add_tool example_env unresolved_cfg (new_world Map.empty)))))
     (cfg_name unresolved_cfg) = None"
proof -
  have c1: "create_tool broken_cfg = Inr (BaseTool MCPBasedTool ''broken'' broken_cfg)"
    by (simp add: tool_defs example_defs)
  have s1: "fst (start example_env (BaseTool MCPBasedTool ''broken'' broken_cfg))
     = Inl (OSError ''No such file or directory'')"
    by (simp add: tool_defs example_defs Let_def)
  have c2: "create_tool unresolved_cfg
     = Inr (BaseTool InternalFunctionTool ''user_info'' unresolved_cfg)"
    by (simp add: tool_defs example_defs)
  have s2: "fst (start example_env (BaseTool InternalFunctionTool ''user_info'' unresolved_cfg))
     = Inl (AttributeError ''get_userInfo'')"
    by (simp add: tool_defs example_defs Let_def)
  have e: "fabric (new_world Map.empty) = ToolFabric"
    by (simp add: new_world_def)
  show ?thesis
    using add_tool_start_failure [OF c1 s1, of "new_world Map.empty"]
      add_tool_start_failure [OF c2 s2, of "new_world Map.empty"] c1 s1 c2 s2 e
    by (simp add: ToolFabric_def)
qed

subsection \<open>Removing a name that is not registered\<close>

text \<open>
  C3 as stated does not hold: \<^verbatim>\<open>remove_tool\<close> guards its body with
  \<^verbatim>\<open>if name in self.tool_instances\<close> and has no other branch, so on an absent name it
  returns normally.
\<close>

theorem remove_tool_absent_counterexample:
  "map_of (tool_instances (fabric (new_world Map.empty))) ''ghost'' = None \<and>
   fst (remove_tool example_env ''ghost'' (new_world Map.empty)) = Inr ()"
  by (simp add: remove_tool_def example_defs)

text \<open>
  C3, amended: for every name absent from the registry, \<^verbatim>\<open>remove_tool\<close> returns
  normally and changes nothing (no dictionary, no instance, no event); in particular,
  after a \<^verbatim>\<open>remove_tool\<close> that returned normally, a second \<^verbatim>\<open>remove_tool\<close> of the same
  name returns normally and leaves the whole state as it is, so it calls no \<^verbatim>\<open>stop()\<close>
  and releases nothing a second time.
\<close>

theorem remove_tool_absent_noop:
  "(map_of (tool_instances (fabric w)) n = None \<longrightarrow> remove_tool e n w = (Inr (), w)) \<and>
   (fst (remove_tool e n w) = Inr () \<longrightarrow>
      remove_tool e n (snd (remove_tool e n w)) = (Inr (), snd (remove_tool e n w)))"
proof -
  have absent: "remove_tool e n v = (Inr (), v)"
    if "map_of (tool_instances (fabric v)) n = None" for v
    using that by (simp add: remove_tool_def)
  have gone: "map_of (tool_instances (fabric (snd (remove_tool e n w)))) n = None"
    if "fst (remove_tool e n w) = Inr ()"
    using that
    by (auto simp: remove_tool_def Let_def delete_conv' split: option.splits sum.splits prod.splits)
  show ?thesis using absent gone by blast
qed

theorem remove_tool_absent_noop_witness:
  "map_of (tool_instances (fabric (new_world Map.empty))) ''ghost'' = None \<and>
   remove_tool example_env ''ghost'' (new_world Map.empty) = (Inr (), new_world Map.empty) \<and>
   fst (remove_tool example_env ''playwright''
          (snd (add_tool example_env playwright_cfg (new_world Map.empty)))) = Inr () \<and>
   remove_tool example_env ''playwright''
     (snd (remove_tool example_env ''playwright''
        (snd (add_tool example_env playwright_cfg (new_world Map.empty)))))
     = (Inr (), snd (remove_tool example_env ''playwright''
                  (snd (add_tool example_env playwright_cfg (new_world Map.empty)))))"
proof -
  have absent: "map_of (tool_instances (fabric (new_world Map.empty))) ''ghost'' = None"
    by (simp add: example_defs)
  have first: "fst (remove_tool example_env ''playwright''
          (snd (add_tool example_env playwright_cfg (new_world Map.empty)))) = Inr ()"
    by (simp add: add_tool_def remove_tool_def client_defs tool_defs example_defs Let_def)
  show ?thesis
    using remove_tool_absent_noop [of "new_world Map.empty" "''ghost''" example_env]
      remove_tool_absent_noop [of "snd (add_tool example_env playwright_cfg (new_world Map.empty))"
        "''playwright''" example_env]
      absent first
    by simp
qed

subsection \<open>The factory\<close>

text \<open>
  C10: a configuration with the key \<^verbatim>\<open>command\<close> yields the process-backed variant
  (\<^verbatim>\<open>MCPBasedTool\<close>), whatever it has under \<^verbatim>\<open>module\<close> and \<^verbatim>\<open>function\<close>; a
  configuration with neither \<^verbatim>\<open>command\<close> nor both of \<^verbatim>\<open>module\<close> and \<^verbatim>\<open>function\<close> is
  rejected with \<^verbatim>\<open>ValueError\<close>.
\<close>

theorem create_tool_command_precedence:
  "(cfg_command cfg \<noteq> None \<longrightarrow>
      create_tool cfg = Inr (BaseTool MCPBasedTool (cfg_name cfg) cfg) \<and>
      tool_class (BaseTool MCPBasedTool (cfg_name cfg) cfg) = MCPBasedTool) \<and>
   (cfg_command cfg = None \<and> \<not> (cfg_module cfg \<noteq> None \<and> cfg_function cfg \<noteq> None) \<longrightarrow>
      create_tool cfg = Inl (ValueError (''Unknown tool type for '' @ cfg_name cfg)))"
  by (simp add: create_tool_def BaseTool_def)

theorem create_tool_command_precedence_witness:
  "cfg_command both_cfg \<noteq> None \<and> cfg_module both_cfg \<noteq> None \<and> cfg_function both_cfg \<noteq> None \<and>
   create_tool both_cfg = Inr (BaseTool MCPBasedTool ''echo'' both_cfg) \<and>
   cfg_command untyped_cfg = None \<and> cfg_function untyped_cfg = None \<and>
   create_tool untyped_cfg = Inl (ValueError ''Unknown tool type for nothing'')"
  using create_tool_command_precedence [of both_cfg] create_tool_command_precedence [of untyped_cfg]
  by (simp add: both_cfg_def untyped_cfg_def echo_cfg_def)

subsection \<open>Invoking a function-backed tool\<close>

text \<open>
  C4: for every function-backed tool whose \<^verbatim>\<open>start()\<close> has resolved its callable and
  every argument list, the invocable calls the callable; when the callable raises, the
  invocation raises the same error and nothing else happens; when it returns
  \<open>result\<close>, \<^verbatim>\<open>{"result": result}\<close> is sent to every connected client handle, in
  order (a handle that is not connected prints its warning instead), and the invocation
  returns exactly \<open>result\<close>. The witness is the scenario of the tool \<^verbatim>\<open>"echo"\<close>
  invoked with \<^verbatim>\<open>{"x": 1}\<close>.
\<close>

theorem function_tool_invoke:
  assumes "heap w self = Some t"
    and "tool_function t = Some f"
  shows "call_InternalFunctionTool_tool self args kwargs w =
     (case f args kwargs of
        Inl err \<Rightarrow> (Inl err, w)
      | Inr result \<Rightarrow>
          (Inr result,
           w\<lparr>trace := trace w @
                concat (map (\<lambda>c. if connected c
                                  then [Print_Send (client_name c) (protocol c)
                                          (PDict [(PStr ''result'', result)])]
                                  else [Print_NotConnected (client_name c)])
                          (mcp_clients t))\<rparr>))"
proof (cases "f args kwargs")
  case (Inl err)
  with assms show ?thesis
    by (simp add: call_InternalFunctionTool_tool_def)
next
  case (Inr result)
  with assms show ?thesis
    by (simp add: call_InternalFunctionTool_tool_def for_each_client_eq send_keeps_client
        send_events store_same_object cong: map_cong)
qed

theorem function_tool_invoke_witness:
  "map_of (tools (fabric (snd (add_tool example_env echo_cfg (new_world Map.empty))))) ''echo''
     = Some (InternalFunctionTool_tool 0) \<and>
   tool_function (the (heap (snd (add_tool example_env echo_cfg (new_world Map.empty))) 0))
     = Some echo \<and>
   fst (call_InternalFunctionTool_tool 0 [PDict [(PStr ''x'', PInt 1)]] []
          (snd (add_tool example_env echo_cfg (new_world Map.empty))))
     = Inr (PDict [(PStr ''x'', PInt 1)]) \<and>
   trace (snd (call_InternalFunctionTool_tool 0 [PDict [(PStr ''x'', PInt 1)]] []
          (snd (add_tool example_env echo_cfg (new_world Map.empty)))))
     = trace (snd (add_tool example_env echo_cfg (new_world Map.empty)))
       @ [Print_Send ''user-logger'' ''sse'' (PDict [(PStr ''result'', PDict [(PStr ''x'', PInt 1)])])]"
proof -
  let ?w = "snd (add_tool example_env echo_cfg (new_world Map.empty))"
  have entry: "map_of (tools (fabric ?w)) ''echo'' = Some (InternalFunctionTool_tool 0)"
    by (simp add: add_tool_def client_defs tool_defs example_defs Let_def)
  have obj: "heap ?w 0 = Some (the (heap ?w 0))"
    by (simp add: add_tool_def client_defs tool_defs example_defs Let_def)
  have fn: "tool_function (the (heap ?w 0)) = Some echo"
    by (simp add: add_tool_def client_defs tool_defs example_defs Let_def)
  have cs: "map (\<lambda>c. (connected c, client_name c, protocol c)) (mcp_clients (the (heap ?w 0)))
      = [(True, ''user-logger'', ''sse'')]"
    by (simp add: add_tool_def client_defs tool_defs example_defs Let_def)
  have res: "echo [PDict [(PStr ''x'', PInt 1)]] [] = Inr (PDict [(PStr ''x'', PInt 1)])"
    by (simp add: echo_def)
  show ?thesis
    using function_tool_invoke [OF obj fn, of "[PDict [(PStr ''x'', PInt 1)]]" "[]"] entry fn res cs
    by auto
qed

subsection \<open>Sending on a handle that is not connected\<close>

text \<open>
  C5 as stated does not hold in one part: a send on a handle that is not connected is
  not counted. The handle that comes back is the handle that went in, attribute by
  attribute (\<^verbatim>\<open>MCPClient\<close> has no counter), and the only event is the warning line.
\<close>

theorem send_disconnected_counterexample:
  "\<not> connected (fst (disconnect False (fst (connect (MCPClient ''user-logger'' ''logs.local'' 8000 ''sse'' None))))) \<and>
   send (PDict [(PStr ''result'', PInt 1)])
     (fst (disconnect False (fst (connect (MCPClient ''user-logger'' ''logs.local'' 8000 ''sse'' None)))))
   = (fst (disconnect False (fst (connect (MCPClient ''user-logger'' ''logs.local'' 8000 ''sse'' None)))),
      [Print_NotConnected ''user-logger''])"
  by (simp add: client_defs)

text \<open>
  C5, amended: for every client handle that is not connected and every payload,
  \<^verbatim>\<open>send\<close> changes nothing, prints one warning and does not raise; consequently the
  invocable of a process-backed tool whose client handles are all disconnected returns
  its acknowledgement string \<^verbatim>\<open>"[name] action executed"\<close>, having printed one warning
  per handle.
\<close>

theorem send_disconnected_dropped:
  "(\<not> connected c \<longrightarrow> send payload c = (c, [Print_NotConnected (client_name c)])) \<and>
   (heap w self = Some t \<and> (\<forall>c \<in> set (mcp_clients t). \<not> connected c) \<longrightarrow>
      call_MCPBasedTool_tool self action payload w =
        (Inr (PStr (''['' @ tool_name t @ ''] '' @ action @ '' executed'')),
         w\<lparr>trace := trace w @ map (\<lambda>c. Print_NotConnected (client_name c)) (mcp_clients t)\<rparr>))"
proof -
  have first: "\<not> connected c \<longrightarrow> send payload c = (c, [Print_NotConnected (client_name c)])"
    by (simp add: send_def)
  have warnings:
    "concat (map (\<lambda>c. snd (send p c)) cs) = map (\<lambda>c. Print_NotConnected (client_name c)) cs"
    if "\<forall>c \<in> set cs. \<not> connected c" for cs p
    using that by (induction cs) (simp_all add: send_events)
  have second: "call_MCPBasedTool_tool self action payload w =
        (Inr (PStr (''['' @ tool_name t @ ''] '' @ action @ '' executed'')),
         w\<lparr>trace := trace w @ map (\<lambda>c. Print_NotConnected (client_name c)) (mcp_clients t)\<rparr>)"
    if "heap w self = Some t" and "\<forall>c \<in> set (mcp_clients t). \<not> connected c"
    using that
    by (simp add: call_MCPBasedTool_tool_def for_each_client_eq send_keeps_client
        store_same_object Let_def warnings)
  show ?thesis using first second by blast
qed

theorem send_disconnected_dropped_witness:
  "\<not> connected (fst (disconnect False (fst (connect (MCPClient ''user-logger'' ''logs.local'' 8000 ''sse'' None))))) \<and>
   snd (send (PInt 1)
     (fst (disconnect False (fst (connect (MCPClient ''user-logger'' ''logs.local'' 8000 ''sse'' None))))))
     = [Print_NotConnected ''user-logger''] \<and>
   map connected (mcp_clients (the (heap (snd (remove_tool example_env ''playwright''
        (snd (add_tool example_env playwright_cfg (new_world Map.empty))))) 0))) = [False] \<and>
   fst (call_MCPBasedTool_tool 0 ''goto'' PNone
         (snd (remove_tool example_env ''playwright''
            (snd (add_tool example_env playwright_cfg (new_world Map.empty))))))
     = Inr (PStr ''[playwright] goto executed'')"
proof -
  let ?c = "fst (disconnect False (fst (connect (MCPClient ''user-logger'' ''logs.local'' 8000 ''sse'' None))))"
  let ?w = "snd (remove_tool example_env ''playwright''
        (snd (add_tool example_env playwright_cfg (new_world Map.empty))))"
  have c: "\<not> connected ?c" "client_name ?c = ''user-logger''"
    by (simp_all add: client_defs)
  have obj: "heap ?w 0 = Some (the (heap ?w 0))"
    by (simp add: add_tool_def remove_tool_def client_defs tool_defs example_defs Let_def)
  have cs: "map connected (mcp_clients (the (heap ?w 0))) = [False]"
    by (simp add: add_tool_def remove_tool_def client_defs tool_defs example_defs Let_def)
  have nm: "tool_name (the (heap ?w 0)) = ''playwright''"
    by (simp add: add_tool_def remove_tool_def client_defs tool_defs example_defs Let_def)
  from cs have all: "\<forall>c \<in> set (mcp_clients (the (heap ?w 0))). \<not> connected c"
    by (auto simp: map_eq_Cons_conv)
  show ?thesis
    using send_disconnected_dropped [of ?c "PInt 1"]
      send_disconnected_dropped [of _ PNone ?w 0 "the (heap ?w 0)" "''goto''"] c obj cs nm all
    by simp
qed

subsection \<open>Disconnecting a client handle\<close>

text \<open>
  C6 holds of the code on every schedule but one kind. \<^verbatim>\<open>disconnect\<close> always sets the
  cancellation flag and joins the thread before it returns (\<open>disconnect_stop_health\<close>,
  \<open>disconnect_join_last\<close>), and a second call is safe (\<open>disconnect_again\<close>). But it
  clears \<^verbatim>\<open>connected\<close> before it sets the flag: a health-check thread that is past its
  test of the flag reads \<^verbatim>\<open>connected\<close> as false, reconnects and only then leaves. On
  that schedule \<^verbatim>\<open>disconnect()\<close> of a connected, monitored handle returns with the
  handle connected, not in the Disconnected state, and a second \<^verbatim>\<open>disconnect()\<close> does
  not leave the handle as the first one left it; \<^verbatim>\<open>remove_tool\<close> on that schedule
  leaves the removed tool's handle connected.
\<close>

theorem disconnect_race_leaves_connected:
  "connected monitored_handle \<and> health_thread monitored_handle = Some 5 \<and>
   \<not> stop_health monitored_handle \<and>
   connected (fst (disconnect True monitored_handle)) \<and>
   stop_health (fst (disconnect True monitored_handle)) \<and>
   snd (disconnect True monitored_handle)
     = [Print_Reconnecting ''playwright-client-1'',
        Print_Connecting ''playwright-client-1'' ''stdio'' ''localhost'' 8081,
        Thread_Join ''playwright-client-1'', Print_Disconnected ''playwright-client-1''] \<and>
   \<not> connected (fst (disconnect True (fst (disconnect True monitored_handle)))) \<and>
   fst (disconnect True (fst (disconnect True monitored_handle)))
     \<noteq> fst (disconnect True monitored_handle) \<and>
   mcp_clients (the (heap (snd (add_tool racing_env playwright_cfg (new_world Map.empty))) 0))
     = [monitored_handle] \<and>
   fst (remove_tool racing_env ''playwright''
         (snd (add_tool racing_env playwright_cfg (new_world Map.empty)))) = Inr () \<and>
   map connected (mcp_clients (the (heap (snd (remove_tool racing_env ''playwright''
         (snd (add_tool racing_env playwright_cfg (new_world Map.empty))))) 0))) = [True]"
proof -
  have handle: "connected monitored_handle" "health_thread monitored_handle = Some 5"
      "\<not> stop_health monitored_handle"
    by (simp_all add: client_defs monitored_handle_def)
  have first: "connected (fst (disconnect True monitored_handle))"
      "stop_health (fst (disconnect True monitored_handle))"
    using handle by (simp_all add: disconnect_connected disconnect_stop_health)
  have events: "snd (disconnect True monitored_handle)
     = [Print_Reconnecting ''playwright-client-1'',
        Print_Connecting ''playwright-client-1'' ''stdio'' ''localhost'' 8081,
        Thread_Join ''playwright-client-1'', Print_Disconnected ''playwright-client-1'']"
    by (simp add: client_defs monitored_handle_def Let_def)
  have second: "\<not> connected (fst (disconnect True (fst (disconnect True monitored_handle))))"
    by (simp add: disconnect_connected disconnect_stop_health)
  from first(1) second
  have differ: "fst (disconnect True (fst (disconnect True monitored_handle)))
     \<noteq> fst (disconnect True monitored_handle)"
    by metis
  have registered:
    "mcp_clients (the (heap (snd (add_tool racing_env playwright_cfg (new_world Map.empty))) 0))
       = [monitored_handle]"
    by (simp add: add_tool_def client_defs tool_defs example_defs Let_def)
  have removed: "fst (remove_tool racing_env ''playwright''
         (snd (add_tool racing_env playwright_cfg (new_world Map.empty)))) = Inr ()"
    by (simp add: add_tool_def remove_tool_def client_defs tool_defs example_defs Let_def)
  have left: "map connected (mcp_clients (the (heap (snd (remove_tool racing_env ''playwright''
         (snd (add_tool racing_env playwright_cfg (new_world Map.empty))))) 0))) = [True]"
    by (simp add: add_tool_def remove_tool_def client_defs tool_defs example_defs Let_def)
  from handle first events second differ registered removed left show ?thesis
    by (intro conjI)
qed

subsection \<open>Stopping a process-backed tool\<close>

text \<open>
  C7 as stated does not hold in one part: \<^verbatim>\<open>MCPBasedTool.stop\<close> calls
  \<^verbatim>\<open>self.process.terminate()\<close> outside any \<^verbatim>\<open>try\<close>, so an error of the termination
  reaches the caller of \<^verbatim>\<open>stop\<close>, and through it the caller of \<^verbatim>\<open>remove_tool\<close>.
\<close>

theorem stop_terminate_error_counterexample:
  "tool_class (the (heap (snd (add_tool denying_env playwright_cfg (new_world Map.empty))) 0))
     = MCPBasedTool \<and>
   process (the (heap (snd (add_tool denying_env playwright_cfg (new_world Map.empty))) 0))
     = Some 4242 \<and>
   terminate denying_env 4242 = Some (OSError ''Permission denied'') \<and>
   fst (stop denying_env
         (the (heap (snd (add_tool denying_env playwright_cfg (new_world Map.empty))) 0)))
     = Inl (OSError ''Permission denied'') \<and>
   fst (remove_tool denying_env ''playwright''
         (snd (add_tool denying_env playwright_cfg (new_world Map.empty))))
     = Inl (OSError ''Permission denied'')"
  by (simp add: add_tool_def remove_tool_def client_defs tool_defs example_defs Let_def)

text \<open>
  C7, amended: for every process-backed tool with an owned process, on every schedule,
  \<^verbatim>\<open>stop()\<close> first calls \<^verbatim>\<open>disconnect()\<close> on each of its client handles, in order,
  and then terminates the owned process. When the termination does not raise,
  \<^verbatim>\<open>stop()\<close> prints its last line and returns normally. When the termination raises,
  the error is neither caught nor logged: \<^verbatim>\<open>stop()\<close> raises it, after
  \<^verbatim>\<open>disconnect()\<close> of every handle, and \<^verbatim>\<open>remove_tool\<close> of a name registered for
  that tool raises it too and leaves both dictionaries as they were. Either way every
  handle has its cancellation flag set.
\<close>

theorem MCPBasedTool_stop_order:
  assumes "tool_class t = MCPBasedTool"
    and "process t = Some p"
  shows "stop e t =
     (case terminate e p of
        None \<Rightarrow>
          (Inr (),
           t\<lparr>mcp_clients :=
               map (\<lambda>c. fst (disconnect (health_loop_reconnects e c) c)) (mcp_clients t)\<rparr>,
           concat (map (\<lambda>c. snd (disconnect (health_loop_reconnects e c) c)) (mcp_clients t))
             @ [Terminate p, Print_MCPStopped (tool_name t)])
      | Some err \<Rightarrow>
          (Inl err,
           t\<lparr>mcp_clients :=
               map (\<lambda>c. fst (disconnect (health_loop_reconnects e c) c)) (mcp_clients t)\<rparr>,
           concat (map (\<lambda>c. snd (disconnect (health_loop_reconnects e c) c)) (mcp_clients t))
             @ [Terminate p])) \<and>
     (\<forall>c \<in> set (mcp_clients (fst (snd (stop e t)))). stop_health c) \<and>
     (map_of (tool_instances (fabric w)) n = Some self \<and> heap w self = Some t \<and>
      terminate e p = Some err \<longrightarrow>
        fst (remove_tool e n w) = Inl err \<and>
        fabric (snd (remove_tool e n w)) = fabric w \<and>
        trace (snd (remove_tool e n w)) = trace w @ snd (snd (stop e t)))"
proof -
  have eq: "stop e t =
     (case terminate e p of
        None \<Rightarrow>
          (Inr (),
           t\<lparr>mcp_clients :=
               map (\<lambda>c. fst (disconnect (health_loop_reconnects e c) c)) (mcp_clients t)\<rparr>,
           concat (map (\<lambda>c. snd (disconnect (health_loop_reconnects e c) c)) (mcp_clients t))
             @ [Terminate p, Print_MCPStopped (tool_name t)])
      | Some err \<Rightarrow>
          (Inl err,
           t\<lparr>mcp_clients :=
               map (\<lambda>c. fst (disconnect (health_loop_reconnects e c) c)) (mcp_clients t)\<rparr>,
           concat (map (\<lambda>c. snd (disconnect (health_loop_reconnects e c) c)) (mcp_clients t))
             @ [Terminate p]))"
    using assms
    by (simp add: stop_def MCPBasedTool_stop_def BaseTool_stop_def for_each_client_eq
        split: option.splits)
  have flags: "\<forall>c \<in> set (mcp_clients (fst (snd (stop e t)))). stop_health c"
    unfolding eq using disconnect_stop_health by (auto split: option.splits)
  have raised: "fst (remove_tool e n w) = Inl err \<and>
        fabric (snd (remove_tool e n w)) = fabric w \<and>
        trace (snd (remove_tool e n w)) = trace w @ snd (snd (stop e t))"
    if "map_of (tool_instances (fabric w)) n = Some self" and "heap w self = Some t"
      and "terminate e p = Some err"
  proof -
    from eq that(3) obtain t' evs where "stop e t = (Inl err, t', evs)"
      by simp
    with that(1,2) show ?thesis
      by (simp add: remove_tool_def)
  qed
  from eq flags raised show ?thesis by blast
qed

theorem MCPBasedTool_stop_order_witness:
  "tool_class (the (heap (snd (add_tool example_env playwright_cfg (new_world Map.empty))) 0))
     = MCPBasedTool \<and>
   process (the (heap (snd (add_tool example_env playwright_cfg (new_world Map.empty))) 0))
     = Some 4242 \<and>
   fst (stop example_env
         (the (heap (snd (add_tool example_env playwright_cfg (new_world Map.empty))) 0)))
     = Inr () \<and>
   snd (snd (stop example_env
         (the (heap (snd (add_tool example_env playwright_cfg (new_world Map.empty))) 0))))
     = [Thread_Join ''playwright-client-1'', Print_Disconnected ''playwright-client-1'',
        Terminate 4242, Print_MCPStopped ''playwright''] \<and>
   stop denying_env
         (the (heap (snd (add_tool example_env playwright_cfg (new_world Map.empty))) 0))
     = (Inl (OSError ''Permission denied''),
        fst (snd (stop example_env
          (the (heap (snd (add_tool example_env playwright_cfg (new_world Map.empty))) 0)))),
        [Thread_Join ''playwright-client-1'', Print_Disconnected ''playwright-client-1'',
         Terminate 4242]) \<and>
   map_of (tool_instances (fabric (snd (add_tool example_env playwright_cfg
       (new_world Map.empty))))) ''playwright'' = Some 0 \<and>
   terminate denying_env 4242 = Some (OSError ''Permission denied'') \<and>
   fst (remove_tool denying_env ''playwright''
         (snd (add_tool example_env playwright_cfg (new_world Map.empty))))
     = Inl (OSError ''Permission denied'') \<and>
   fabric (snd (remove_tool denying_env ''playwright''
         (snd (add_tool example_env playwright_cfg (new_world Map.empty)))))
     = fabric (snd (add_tool example_env playwright_cfg (new_world Map.empty)))"
proof -
  let ?w = "snd (add_tool example_env playwright_cfg (new_world Map.empty))"
  let ?t = "the (heap ?w 0)"
  have cls: "tool_class ?t = MCPBasedTool"
    by (simp add: add_tool_def client_defs tool_defs example_defs Let_def)
  have pr: "process ?t = Some 4242"
    by (simp add: add_tool_def client_defs tool_defs example_defs Let_def)
  have nm: "tool_name ?t = ''playwright''"
    by (simp add: add_tool_def client_defs tool_defs example_defs Let_def)
  have reg: "map_of (tool_instances (fabric ?w)) ''playwright'' = Some 0"
    by (simp add: add_tool_def client_defs tool_defs example_defs Let_def)
  have obj: "heap ?w 0 = Some ?t"
    by (simp add: add_tool_def client_defs tool_defs example_defs Let_def)
  have cs: "mcp_clients ?t = [monitored_handle]"
    by (simp add: add_tool_def client_defs tool_defs example_defs Let_def)
  have sched: "health_loop_reconnects example_env = (\<lambda>c. False)"
      "health_loop_reconnects denying_env = (\<lambda>c. False)"
    by (simp_all add: example_defs)
  have evs: "snd (disconnect False monitored_handle)
      = [Thread_Join ''playwright-client-1'', Print_Disconnected ''playwright-client-1'']"
    by (simp add: client_defs monitored_handle_def Let_def)
  have t1: "terminate example_env 4242 = None"
    and t2: "terminate denying_env 4242 = Some (OSError ''Permission denied'')"
    by (simp_all add: example_defs)
  note ok = MCPBasedTool_stop_order [OF cls pr, of example_env]
  note bad = MCPBasedTool_stop_order [OF cls pr, of denying_env ?w "''playwright''" 0
      "OSError ''Permission denied''"]
  from ok have a: "fst (stop example_env ?t) = Inr ()"
      "snd (snd (stop example_env ?t))
        = [Thread_Join ''playwright-client-1'', Print_Disconnected ''playwright-client-1'',
           Terminate 4242, Print_MCPStopped ''playwright'']"
    by (simp_all add: t1 cs sched evs nm)
  from ok bad have b: "stop denying_env ?t
     = (Inl (OSError ''Permission denied''), fst (snd (stop example_env ?t)),
        [Thread_Join ''playwright-client-1'', Print_Disconnected ''playwright-client-1'',
         Terminate 4242])"
    by (simp add: t1 t2 cs sched evs)
  from bad reg obj t2 have c: "fst (remove_tool denying_env ''playwright'' ?w)
        = Inl (OSError ''Permission denied'')"
      "fabric (snd (remove_tool denying_env ''playwright'' ?w)) = fabric ?w"
    by blast+
  from cls pr a b reg t2 c show ?thesis
    by (intro conjI)
qed

subsection \<open>Attaching the registry to a consumer\<close>

text \<open>
  C8: for every registry state (a dictionary has distinct keys) and every consumer,
  \<^verbatim>\<open>attach_all_to_agent\<close> leaves the registry as it is and makes the consumer's table
  its old table overridden by every entry of the registry's current visible mapping;
  whatever sequence of \<^verbatim>\<open>add_tool\<close> and \<^verbatim>\<open>remove_tool\<close> calls follows, the tables of
  all consumers stay as that call left them.
\<close>

theorem attach_all_copies_without_linkage:
  assumes "agents w a = Some ag"
    and "distinct (map fst (tools (fabric w)))"
  shows "fst (attach_all_to_agent a w) = Inr () \<and>
         fabric (snd (attach_all_to_agent a w)) = fabric w \<and>
         (\<exists>ag'. agents (snd (attach_all_to_agent a w)) a = Some ag' \<and>
                map_of (agent_tools ag') = map_of (agent_tools ag) ++ map_of (tools (fabric w))) \<and>
         (\<forall>ops. agents (run e ops (snd (attach_all_to_agent a w)))
                  = agents (snd (attach_all_to_agent a w)))"
  using assms
  by (simp add: attach_all_to_agent_def attach_all_loop_table run_agents)

theorem attach_all_copies_without_linkage_witness:
  "agents (snd (add_tool example_env playwright_cfg (new_world session_agents))) 0
     = Some \<lparr>agent_tools = []\<rparr> \<and>
   distinct (map fst (tools (fabric (snd (add_tool example_env playwright_cfg
     (new_world session_agents)))))) \<and>
   map_of (agent_tools (the (agents (snd (attach_all_to_agent 0
     (snd (add_tool example_env playwright_cfg (new_world session_agents))))) 0)))
     = [''playwright'' \<mapsto> MCPBasedTool_tool 0] \<and>
   agents (run example_env [Add_tool echo_cfg, Remove_tool ''playwright'']
     (snd (attach_all_to_agent 0
        (snd (add_tool example_env playwright_cfg (new_world session_agents))))))
     = agents (snd (attach_all_to_agent 0
        (snd (add_tool example_env playwright_cfg (new_world session_agents))))) \<and>
   tools (fabric (run example_env [Add_tool echo_cfg, Remove_tool ''playwright'']
     (snd (attach_all_to_agent 0
        (snd (add_tool example_env playwright_cfg (new_world session_agents)))))))
     = [(''echo'', InternalFunctionTool_tool 1)]"
proof -
  let ?w = "snd (add_tool example_env playwright_cfg (new_world session_agents))"
  have ag: "agents ?w 0 = Some \<lparr>agent_tools = []\<rparr>"
    by (simp add: add_tool_def client_defs tool_defs example_defs session_agents_def Let_def)
  have tl: "tools (fabric ?w) = [(''playwright'', MCPBasedTool_tool 0)]"
    by (simp add: add_tool_def client_defs tool_defs example_defs Let_def)
  then have ds: "distinct (map fst (tools (fabric ?w)))"
    by simp
  have after: "tools (fabric (run example_env [Add_tool echo_cfg, Remove_tool ''playwright'']
      (snd (attach_all_to_agent 0 ?w)))) = [(''echo'', InternalFunctionTool_tool 1)]"
    by (simp add: attach_all_to_agent_def add_tool_def remove_tool_def client_defs tool_defs
        example_defs session_agents_def Let_def)
  note th = attach_all_copies_without_linkage [OF ag ds, of example_env]
  from th have frame:
    "agents (run example_env [Add_tool echo_cfg, Remove_tool ''playwright'']
       (snd (attach_all_to_agent 0 ?w))) = agents (snd (attach_all_to_agent 0 ?w))"
    by blast
  from th obtain ag' where "agents (snd (attach_all_to_agent 0 ?w)) 0 = Some ag'"
    and "map_of (agent_tools ag') = map_of (agent_tools \<lparr>agent_tools = []\<rparr>) ++ map_of (tools (fabric ?w))"
    by blast
  then have table: "map_of (agent_tools (the (agents (snd (attach_all_to_agent 0 ?w)) 0)))
      = [''playwright'' \<mapsto> MCPBasedTool_tool 0]"
    by (simp add: tl)
  from ag ds table frame after show ?thesis
    by (intro conjI)
qed

subsection \<open>The two dictionaries of the registry\<close>

text \<open>
  C9: starting from a freshly constructed registry, after every sequence of
  \<^verbatim>\<open>add_tool\<close> and \<^verbatim>\<open>remove_tool\<close> calls (those that return normally, and also those
  that raise and are caught), the instance map and the visible mapping have the same
  set of keys.
\<close>

theorem registry_keys_agree:
  "set (map fst (tool_instances (fabric (run e ops (new_world ags)))))
     = set (map fst (tools (fabric (run e ops (new_world ags)))))"
proof -
  have "map fst (tool_instances (fabric (new_world ags))) = map fst (tools (fabric (new_world ags)))"
    by (simp add: new_world_def ToolFabric_def)
  then have "map fst (tool_instances (fabric (run e ops (new_world ags))))
      = map fst (tools (fabric (run e ops (new_world ags))))"
    by (rule run_keys)
  then show ?thesis by simp
qed

theorem registry_keys_agree_witness:
  "set (map fst (tool_instances (fabric (run example_env
      [Add_tool playwright_cfg, Add_tool echo_cfg, Add_tool broken_cfg,
       Remove_tool ''playwright'', Remove_tool ''ghost''] (new_world Map.empty)))))
     = {''echo''} \<and>
   set (map fst (tools (fabric (run example_env
      [Add_tool playwright_cfg, Add_tool echo_cfg, Add_tool broken_cfg,
       Remove_tool ''playwright'', Remove_tool ''ghost''] (new_world Map.empty)))))
     = {''echo''}"
proof -
  have "set (map fst (tools (fabric (run example_env
      [Add_tool playwright_cfg, Add_tool echo_cfg, Add_tool broken_cfg,
       Remove_tool ''playwright'', Remove_tool ''ghost''] (new_world Map.empty)))))
     = {''echo''}"
    by (simp add: add_tool_def remove_tool_def client_defs tool_defs example_defs Let_def)
  then show ?thesis
    using registry_keys_agree [of example_env
        "[Add_tool playwright_cfg, Add_tool echo_cfg, Add_tool broken_cfg,
          Remove_tool ''playwright'', Remove_tool ''ghost'']" Map.empty]
    by simp
qed

end
